theory Spec2Isabelle
  imports Complex_Main "HOL-Library.Word"
begin

section \<open>JavaScript values\<close>

text \<open>
  The public properties of the component (\<^verbatim>\<open>@api\<close> fields) and the record field value
  it resolves are untyped in the source. They are modelled by the primitive values that
  reach them: \<^verbatim>\<open>undefined\<close>, \<^verbatim>\<open>null\<close>, booleans, integer-valued numbers and strings.
\<close>

datatype jsval = JUndefined | JNull | JBool bool | JNum int | JStr string

text \<open>ToBoolean: what \<^verbatim>\<open>if (v)\<close>, \<^verbatim>\<open>!v\<close> and \<^verbatim>\<open>a && b\<close> test.\<close>

fun truthy :: "jsval \<Rightarrow> bool" where
  "truthy JUndefined = False"
| "truthy JNull = False"
| "truthy (JBool b) = b"
| "truthy (JNum n) = (n \<noteq> 0)"
| "truthy (JStr s) = (s \<noteq> [])"

definition digit_char :: "nat \<Rightarrow> char" where
  "digit_char d = ''0123456789abcdef'' ! d"

text \<open>\<^verbatim>\<open>n.toString(b)\<close> for a non-negative integer \<open>n\<close> and a radix \<open>b\<close> from 2 to 16.\<close>

function radix_digits :: "nat \<Rightarrow> nat \<Rightarrow> string" where
  "radix_digits b n =
     (if n < b \<or> b < 2 then [digit_char n]
      else radix_digits b (n div b) @ [digit_char (n mod b)])"
  by pat_completeness auto
termination
  by (relation "measure snd") auto

declare radix_digits.simps [simp del]

text \<open>
  ToString, as applied by template literals and by \<^verbatim>\<open>URLSearchParams.append\<close>. For
  numbers it is the decimal text, which is what JavaScript gives for integers of magnitude
  below \<open>10\<^sup>2\<^sup>1\<close>; from there on JavaScript uses exponent form, which is not modelled.
\<close>

fun js_toString :: "jsval \<Rightarrow> string" where
  "js_toString JUndefined = ''undefined''"
| "js_toString JNull = ''null''"
| "js_toString (JBool b) = (if b then ''true'' else ''false'')"
| "js_toString (JNum n) = (if n < 0 then CHR ''-'' # radix_digits 10 (nat (- n)) else radix_digits 10 (nat n))"
| "js_toString (JStr s) = s"

section \<open>Strings\<close>

text \<open>\<^verbatim>\<open>s.startsWith(p)\<close>\<close>

fun startsWith :: "string \<Rightarrow> string \<Rightarrow> bool" where
  "startsWith s [] = True"
| "startsWith [] (p # ps) = False"
| "startsWith (c # cs) (p # ps) = (c = p \<and> startsWith cs ps)"

text \<open>
  \<^verbatim>\<open>s.replace(pat, rep)\<close> with a string pattern: only the first occurrence is replaced.
  The source only calls it with the empty replacement, which has no \<^verbatim>\<open>$\<close> patterns.
\<close>

fun replace_str :: "string \<Rightarrow> string \<Rightarrow> string \<Rightarrow> string" where
  "replace_str [] pat rep = (if pat = [] then rep else [])"
| "replace_str (c # cs) pat rep =
     (if startsWith (c # cs) pat then rep @ drop (length pat) (c # cs)
      else c # replace_str cs pat rep)"

section \<open>The platform: URL objects\<close>

text \<open>
  A \<^verbatim>\<open>URL\<close> object as far as the component reads and writes it: the \<^verbatim>\<open>protocol\<close> and
  \<^verbatim>\<open>origin\<close> getters, the list behind \<^verbatim>\<open>searchParams\<close> (in order, duplicates kept) and
  the text it was parsed from, from which the platform serialises.
\<close>

record url =
  parsedFrom :: string
  protocol :: string
  origin :: string
  searchParams :: "(string \<times> string) list"

text \<open>\<^verbatim>\<open>u.searchParams.append(name, value)\<close>\<close>

definition searchParams_append :: "url \<Rightarrow> string \<Rightarrow> string \<Rightarrow> url" where
  "searchParams_append u name v = u\<lparr>searchParams := searchParams u @ [(name, v)]\<rparr>"

text \<open>
  The browser and the libraries the component calls are not part of the repository. They
  are parameters of the model:
  \<^item> \<open>URL_new\<close> is the \<^verbatim>\<open>URL\<close> constructor; \<open>Inl msg\<close> is the \<^verbatim>\<open>TypeError\<close> it throws,
    with its message;
  \<^item> \<open>URL_toString\<close> is \<^verbatim>\<open>URL.prototype.toString\<close>;
  \<^item> \<open>reduceErrors\<close> is the helper of \<^verbatim>\<open>errorUtils.js\<close>, rendered into the message;
  \<^item> \<open>Viz_throws\<close> says whether \<^verbatim>\<open>new tableau.Viz(...)\<close> throws, given the constructor
    calls made so far and the arguments of this one.
\<close>

record viz_options =
  hideTabs :: bool
  hideToolbar :: bool
  opt_height :: string
  opt_width :: string

text \<open>The placeholder \<^verbatim>\<open>div\<close>: its \<^verbatim>\<open>offsetWidth\<close> and the text last assigned to \<^verbatim>\<open>style.height\<close>.\<close>

record container =
  offsetWidth :: int
  styleHeight :: string

record viz_call =
  call_container :: container
  call_url :: string
  call_options :: viz_options

record platform =
  URL_new :: "string \<Rightarrow> string + url"
  URL_toString :: "url \<Rightarrow> string"
  reduceErrors :: "string \<Rightarrow> string"
  Viz_throws :: "viz_call list \<Rightarrow> viz_call \<Rightarrow> string option"

section \<open>The component\<close>

record component =
  objectApiName :: jsval
  recordId :: jsval
  vizUrl :: jsval
  showTabs :: jsval
  showToolbar :: jsval
  filterOnRecordId :: jsval
  height :: jsval
  tabAdvancedFilter :: jsval
  sfAdvancedFilter :: jsval
  viz :: "nat option"
  advancedFilterValue :: jsval
  errorMessage :: jsval
  isLibLoaded :: bool

definition msg_https :: string where
  "msg_https = ''Invalid URL. Make sure the link to the Tableau view is using HTTPS.''"

definition msg_hash :: string where
  "msg_hash = ''Invalid URL. Enter the link for a Tableau view. Click Copy Link to copy the URL from the Share View dialog box in Tableau. The link for the Tableau view must not include a '' @ [CHR 0x27] @ ''#'' @ [CHR 0x27] @ '' after the name of the server.''"

definition msg_filter :: string where
  "msg_filter = ''Advanced filtering requires that you select both Tableau and Salesforce fields. The fields should represent corresponding data, for example, user or account identifiers.''"

text \<open>
  The \<^verbatim>\<open>try\<close> block of \<^verbatim>\<open>validateInputs\<close>: \<open>Some msg\<close> is the message of the error that
  reaches the \<^verbatim>\<open>catch\<close>, \<open>None\<close> is normal completion.
\<close>

definition validate_url :: "platform \<Rightarrow> component \<Rightarrow> string option" where
  "validate_url P c =
     (case URL_new P (js_toString (vizUrl c)) of
        Inl msg \<Rightarrow> Some msg
      | Inr u \<Rightarrow>
          if protocol u \<noteq> ''https:'' then Some msg_https
          else if startsWith (replace_str (URL_toString P u) (origin u) []) ''/#/'' then Some msg_hash
          else None)"

definition validateInputs :: "platform \<Rightarrow> component \<Rightarrow> bool \<times> component" where
  "validateInputs P c =
     (case validate_url P c of
        Some msg \<Rightarrow> (False, c\<lparr>errorMessage := JStr (if msg \<noteq> [] then msg else ''Invalid URL'')\<rparr>)
      | None \<Rightarrow>
          if (truthy (sfAdvancedFilter c) \<and> \<not> truthy (tabAdvancedFilter c)) \<or>
             (\<not> truthy (sfAdvancedFilter c) \<and> truthy (tabAdvancedFilter c))
          then (False, c\<lparr>errorMessage := JStr msg_filter\<rparr>)
          else (True, c))"


section \<open>Building the embed URL\<close>

text \<open>
  \<^verbatim>\<open>setVizDimensions\<close> assigns the height to the placeholder and appends \<^verbatim>\<open>:size\<close>.
  It returns the URL and the placeholder, both mutated in the source.
\<close>

definition setVizDimensions :: "component \<Rightarrow> url \<Rightarrow> container \<Rightarrow> url \<times> container" where
  "setVizDimensions c vizToLoad containerDiv =
     (let containerDiv' = containerDiv\<lparr>styleHeight := js_toString (height c) @ ''px''\<rparr>;
          vizWidth = offsetWidth containerDiv'
      in (searchParams_append vizToLoad '':size''
            (js_toString (JNum vizWidth) @ '','' @ js_toString (height c)),
          containerDiv'))"

definition setVizFilters :: "component \<Rightarrow> url \<Rightarrow> url" where
  "setVizFilters c vizToLoad =
     (let u1 = (if filterOnRecordId c = JBool True \<and> truthy (objectApiName c)
                then searchParams_append vizToLoad
                       (js_toString (objectApiName c) @ '' ID'') (js_toString (recordId c))
                else vizToLoad)
      in if truthy (tabAdvancedFilter c) \<and> truthy (advancedFilterValue c)
         then searchParams_append u1
                (js_toString (tabAdvancedFilter c)) (js_toString (advancedFilterValue c))
         else u1)"

section \<open>Mobile detection\<close>

text \<open>
  The two random sources of the browser: \<^verbatim>\<open>crypto.getRandomValues\<close> on a one-byte array
  and \<^verbatim>\<open>Math.random\<close>. Each is an infinite supply with the position of the next draw.
\<close>

record rng =
  cryptoSrc :: "nat \<Rightarrow> 8 word"
  cryptoPos :: nat
  mathSrc :: "nat \<Rightarrow> rat"
  mathPos :: nat

text \<open>\<^verbatim>\<open>array[i]\<close> for a number \<open>i\<close>: \<^verbatim>\<open>undefined\<close> outside the array.\<close>

definition js_index :: "'a list \<Rightarrow> int \<Rightarrow> 'a option" where
  "js_index xs i = (if 0 \<le> i \<and> i < int (length xs) then Some (xs ! nat i) else None)"

definition getRandomSymbol :: "string \<Rightarrow> rng \<Rightarrow> string \<times> rng" where
  "getRandomSymbol symbol r =
     (if symbol = ''y'' then
        (let array = [''8'', ''9'', ''a'', ''b'']
         in (case js_index array \<lfloor>mathSrc r (mathPos r) * of_nat (length array)\<rfloor> of
               None \<Rightarrow> ''undefined''
             | Some s \<Rightarrow> s,
             r\<lparr>mathPos := Suc (mathPos r)\<rparr>))
      else
        (radix_digits 16 (unat (cryptoSrc r (cryptoPos r)) mod 16),
         r\<lparr>cryptoPos := Suc (cryptoPos r)\<rparr>))"

text \<open>
  \<^verbatim>\<open>template.replace(/[xy]/g, getRandomSymbol)\<close>: every \<^verbatim>\<open>x\<close> and \<^verbatim>\<open>y\<close>, from left to
  right, is replaced by what the callback returns for it.
\<close>

fun replace_xy :: "string \<Rightarrow> rng \<Rightarrow> string \<times> rng" where
  "replace_xy [] r = ([], r)"
| "replace_xy (c # cs) r =
     (if c = CHR ''x'' \<or> c = CHR ''y''
      then (let (s, r1) = getRandomSymbol [c] r; (rest, r2) = replace_xy cs r1
            in (s @ rest, r2))
      else (let (rest, r1) = replace_xy cs r in (c # rest, r1)))"

definition generateRandomDeviceId :: "rng \<Rightarrow> string \<times> rng" where
  "generateRandomDeviceId r = replace_xy ''xxxxxxxx-xxxx-4xxx-yxxx-xxxxxxxxxxxx'' r"

text \<open>\<^verbatim>\<open>s.includes(p)\<close>; a regular expression of literal characters tests exactly this.\<close>

fun str_includes :: "string \<Rightarrow> string \<Rightarrow> bool" where
  "str_includes [] pat = (pat = [])"
| "str_includes (c # cs) pat = (startsWith (c # cs) pat \<or> str_includes cs pat)"

text \<open>The character class \<^verbatim>\<open>[\w|-]\<close>.\<close>

definition deviceId_char :: "char \<Rightarrow> bool" where
  "deviceId_char c \<longleftrightarrow>
     c \<in> set ''abcdefghijklmnopqrstuvwxyzABCDEFGHIJKLMNOPQRSTUVWXYZ0123456789_'' \<or>
     c = CHR ''|'' \<or> c = CHR ''-''"

text \<open>
  \<^verbatim>\<open>/uid_([\w|-]+)/g.exec(s)\<close> on a fresh expression: the leftmost position where
  \<^verbatim>\<open>uid_\<close> is followed by at least one character of the class; group 1 is the longest
  run of them.
\<close>

fun exec_deviceIdRegex :: "string \<Rightarrow> string option" where
  "exec_deviceIdRegex [] = None"
| "exec_deviceIdRegex (c # cs) =
     (if startsWith (c # cs) ''uid_'' \<and> takeWhile deviceId_char (drop 4 (c # cs)) \<noteq> []
      then Some (takeWhile deviceId_char (drop 4 (c # cs)))
      else exec_deviceIdRegex cs)"

text \<open>
  \<^verbatim>\<open>/(iPhone|Android|iPad)/g.exec(s)\<close> on a fresh expression: the leftmost position
  where one of the alternatives matches, the alternatives tried in order.
\<close>

fun exec_deviceNameRegex :: "string \<Rightarrow> string option" where
  "exec_deviceNameRegex [] = None"
| "exec_deviceNameRegex (c # cs) =
     (if startsWith (c # cs) ''iPhone'' then Some ''iPhone''
      else if startsWith (c # cs) ''Android'' then Some ''Android''
      else if startsWith (c # cs) ''iPad'' then Some ''iPad''
      else exec_deviceNameRegex cs)"

definition checkForMobileApp :: "url \<Rightarrow> string \<Rightarrow> rng \<Rightarrow> url \<times> rng" where
  "checkForMobileApp vizToLoad ua r =
     (if \<not> str_includes ua ''SalesforceMobileSDK'' then (vizToLoad, r)
      else
        (let (deviceId, r1) =
               (case exec_deviceIdRegex ua of
                  None \<Rightarrow> generateRandomDeviceId r
                | Some m \<Rightarrow> (m, r));
             deviceName =
               (case exec_deviceNameRegex ua of
                  None \<Rightarrow> ''SFMobileApp''
                | Some m \<Rightarrow> ''SFMobileApp_'' @ m);
             u1 = searchParams_append vizToLoad '':use_rt'' ''y'';
             u2 = searchParams_append u1 '':client_id'' ''TableauVizLWC'';
             u3 = searchParams_append u2 '':device_id'' deviceId;
             u4 = searchParams_append u3 '':device_name'' deviceName
         in (u4, r1)))"

section \<open>Selection events\<close>

record payload =
  selectedTarget :: string

text \<open>
  What surrounds the component: the placeholder found by \<^verbatim>\<open>template.querySelector\<close>
  (\<open>None\<close> is \<^verbatim>\<open>null\<close>), \<^verbatim>\<open>navigator.userAgent\<close>, the random sources, and the effects
  the component has on the outside, each as a log in call order: the calls of the
  \<^verbatim>\<open>tableau.Viz\<close> constructor, the handles that received a marks-selection listener, the
  events given to \<^verbatim>\<open>dispatchEvent\<close> (name and detail) and the payloads given to
  \<^verbatim>\<open>publish\<close> on the message channel. \<open>isConnected\<close> is the host's own record of whether
  the component is still attached.
\<close>

record host =
  placeholder :: "container option"
  userAgent :: string
  random :: rng
  vizCalls :: "viz_call list"
  marksListeners :: "nat list"
  dispatched :: "(string \<times> string) list"
  published :: "payload list"
  isConnected :: bool

definition fireLwcMarkEvent :: "string \<Rightarrow> host \<Rightarrow> host" where
  "fireLwcMarkEvent eventDetail h =
     h\<lparr>dispatched := dispatched h @ [(''mark_fired'', eventDetail)],
       published := published h @ [\<lparr>selectedTarget = eventDetail\<rparr>]\<rparr>"

text \<open>The argument is what \<^verbatim>\<open>marksEvent.getWorksheet().getName()\<close> returns.\<close>

definition onMarksSelection :: "string \<Rightarrow> host \<Rightarrow> host" where
  "onMarksSelection worksheetName h =
     (let selectedTarget =
            (if worksheetName = ''IBDaysOfBacklog (2)'' then ''Inbound''
             else if worksheetName = ''BPDaysOfBacklog'' then ''Breakpack''
             else if worksheetName = ''FC.DOB'' then ''Fullcase''
             else worksheetName)
      in fireLwcMarkEvent selectedTarget h)"

section \<open>Rendering and the lifecycle callbacks\<close>

text \<open>
  A callback returns the message of the exception it throws, if any, and the state it
  leaves behind: what it changed before throwing stays changed.
\<close>

type_synonym world = "host \<times> component"
type_synonym outcome = "string option \<times> host \<times> component"

definition msg_null :: string where
  "msg_null = ''TypeError: containerDiv is null''"

definition listenToMarksSelection :: "world \<Rightarrow> outcome" where
  "listenToMarksSelection w =
     (case viz (snd w) of
        None \<Rightarrow> (Some ''TypeError: this.viz is undefined'', w)
      | Some v \<Rightarrow> (None, (fst w)\<lparr>marksListeners := marksListeners (fst w) @ [v]\<rparr>, snd w))"

text \<open>
  The block of \<^verbatim>\<open>renderViz\<close> under \<^verbatim>\<open>// Configure viz URL\<close>, after the URL is parsed:
  size, filters, mobile parameters, in this order.
\<close>

definition configureVizUrl ::
  "component \<Rightarrow> url \<Rightarrow> container \<Rightarrow> string \<Rightarrow> rng \<Rightarrow> url \<times> container \<times> rng" where
  "configureVizUrl c vizToLoad containerDiv ua r =
     (let (u1, containerDiv') = setVizDimensions c vizToLoad containerDiv;
          u2 = setVizFilters c u1;
          (u3, r1) = checkForMobileApp u2 ua r
      in (u3, containerDiv', r1))"

definition renderViz :: "platform \<Rightarrow> world \<Rightarrow> outcome" where
  "renderViz P w =
     (let h = fst w; (valid, c) = validateInputs P (snd w) in
      if \<not> valid \<or> truthy (errorMessage c) then (None, h, c)
      else if \<not> isLibLoaded c then (None, h, c)
      else if truthy (sfAdvancedFilter c) \<and> advancedFilterValue c = JUndefined then (None, h, c)
      else
        (case URL_new P (js_toString (vizUrl c)) of
           Inl msg \<Rightarrow> (Some msg, h, c)
         | Inr vizToLoad \<Rightarrow>
             (case placeholder h of
                None \<Rightarrow> (Some msg_null, h, c)
              | Some containerDiv \<Rightarrow>
                  (let (u, containerDiv', r) =
                         configureVizUrl c vizToLoad containerDiv (userAgent h) (random h);
                       vizURLString = URL_toString P u;
                       options = \<lparr>hideTabs = \<not> truthy (showTabs c),
                                  hideToolbar = \<not> truthy (showToolbar c),
                                  opt_height = js_toString (height c) @ ''px'',
                                  opt_width = ''100%''\<rparr>;
                       call = \<lparr>call_container = containerDiv', call_url = vizURLString,
                               call_options = options\<rparr>;
                       h1 = h\<lparr>placeholder := Some containerDiv', random := r,
                              vizCalls := vizCalls h @ [call]\<rparr>
                   in (case Viz_throws P (vizCalls h) call of
                         Some msg \<Rightarrow> (Some msg, h1, c)
                       | None \<Rightarrow>
                           listenToMarksSelection (h1, c\<lparr>viz := Some (length (vizCalls h))\<rparr>))))))"

definition renderedCallback :: "platform \<Rightarrow> world \<Rightarrow> outcome" where
  "renderedCallback P w = renderViz P w"

text \<open>
  \<^verbatim>\<open>connectedCallback\<close> suspends at \<^verbatim>\<open>await loadScript(...)\<close>. This is its continuation,
  run when the library has loaded.
\<close>

definition connectedCallback_loaded :: "platform \<Rightarrow> world \<Rightarrow> outcome" where
  "connectedCallback_loaded P w = renderViz P (fst w, (snd w)\<lparr>isLibLoaded := True\<rparr>)"

text \<open>\<^verbatim>\<open>getFieldValue(data, field)\<close> on record data given as field names with their values.\<close>

definition getFieldValue :: "(string \<times> jsval) list \<Rightarrow> jsval \<Rightarrow> jsval" where
  "getFieldValue data field =
     (case map_of data (js_toString field) of None \<Rightarrow> JUndefined | Some v \<Rightarrow> v)"

text \<open>The wired \<^verbatim>\<open>getRecord\<close> callback, called with \<^verbatim>\<open>{ error, data }\<close>.\<close>

definition getRecord :: "platform \<Rightarrow> string option \<Rightarrow> (string \<times> jsval) list option \<Rightarrow> world \<Rightarrow> outcome" where
  "getRecord P error data w =
     (let h = fst w; c = snd w in
      case data of
        Some d \<Rightarrow>
          (let c1 = c\<lparr>advancedFilterValue := getFieldValue d (sfAdvancedFilter c)\<rparr> in
           if advancedFilterValue c1 = JUndefined
           then (None, h, c1\<lparr>errorMessage := JStr (''Failed to retrieve value for field '' @
                                                    js_toString (sfAdvancedFilter c1))\<rparr>)
           else renderViz P (h, c1))
      | None \<Rightarrow>
          (case error of
             Some e \<Rightarrow> (None, h, c\<lparr>errorMessage := JStr (''Failed to retrieve record data: '' @
                                                        reduceErrors P e)\<rparr>)
           | None \<Rightarrow> (None, h, c)))"

section \<open>A platform to run the model on\<close>

text \<open>
  The theorems below hold for every platform. To evaluate the model on concrete inputs,
  this one reads URLs of the shape \<^verbatim>\<open>scheme://host/path\<close>, writes appended parameters
  after the text it parsed, renders errors as they are and has a \<^verbatim>\<open>tableau.Viz\<close>
  constructor that never throws.
\<close>

definition example_URL_new :: "string \<Rightarrow> string + url" where
  "example_URL_new s =
     (let scheme = takeWhile (\<lambda>c. c \<noteq> CHR '':'') s;
          rest = drop (length scheme) s;
          hostname = takeWhile (\<lambda>c. c \<notin> set ''/?#'') (drop 3 rest)
      in if scheme = [] \<or> \<not> startsWith rest ''://'' \<or> hostname = [] then Inl ''Invalid URL''
         else Inr \<lparr>parsedFrom = s, protocol = scheme @ '':'',
                   origin = scheme @ ''://'' @ hostname, searchParams = []\<rparr>)"

definition example_URL_toString :: "url \<Rightarrow> string" where
  "example_URL_toString u =
     (case searchParams u of
        [] \<Rightarrow> parsedFrom u
      | (k, v) # ps \<Rightarrow>
          parsedFrom u @ ''?'' @ k @ ''='' @ v @
          concat (map (\<lambda>(k, v). ''&'' @ k @ ''='' @ v) ps))"

definition example_platform :: platform where
  "example_platform =
     \<lparr>URL_new = example_URL_new, URL_toString = example_URL_toString,
      reduceErrors = (\<lambda>e. e), Viz_throws = (\<lambda>calls call. None)\<rparr>"

definition example_rng :: rng where
  "example_rng = \<lparr>cryptoSrc = (\<lambda>n. of_nat (7 * n + 3)), cryptoPos = 0,
                  mathSrc = (\<lambda>n. 1 / 2), mathPos = 0\<rparr>"

definition example_host :: host where
  "example_host =
     \<lparr>placeholder = Some \<lparr>offsetWidth = 800, styleHeight = []\<rparr>,
      userAgent = ''Mozilla/5.0 (Windows NT 10.0; Win64; x64)'',
      random = example_rng, vizCalls = [], marksListeners = [], dispatched = [],
      published = [], isConnected = True\<rparr>"

definition example_component :: component where
  "example_component =
     \<lparr>objectApiName = JStr ''Account'', recordId = JStr ''001x'',
      vizUrl = JStr ''https://public.tableau.com/views/Sales/Overview'',
      showTabs = JBool False, showToolbar = JBool True, filterOnRecordId = JBool True,
      height = JNum 600, tabAdvancedFilter = JUndefined, sfAdvancedFilter = JUndefined,
      viz = None, advancedFilterValue = JUndefined, errorMessage = JUndefined,
      isLibLoaded = True\<rparr>"

definition example_url :: url where
  "example_url =
     \<lparr>parsedFrom = ''https://public.tableau.com/views/Sales/Overview'',
      protocol = ''https:'', origin = ''https://public.tableau.com'', searchParams = []\<rparr>"

definition example_filtered :: component where
  "example_filtered =
     example_component\<lparr>tabAdvancedFilter := JStr ''Region'',
                        sfAdvancedFilter := JStr ''Account.Region__c'',
                        advancedFilterValue := JStr ''EMEA''\<rparr>"

definition example_call :: viz_call where
  "example_call =
     \<lparr>call_container = \<lparr>offsetWidth = 800, styleHeight = ''600px''\<rparr>,
      call_url = ''https://public.tableau.com/views/Sales/Overview?:size=800,600&Account ID=001x'',
      call_options = \<lparr>hideTabs = True, hideToolbar = False, opt_height = ''600px'',
                       opt_width = ''100%''\<rparr>\<rparr>"

text \<open>The state after the first successful \<^verbatim>\<open>renderViz\<close> on the example.\<close>

definition example_rendered_host :: host where
  "example_rendered_host =
     example_host\<lparr>placeholder := Some \<lparr>offsetWidth = 800, styleHeight = ''600px''\<rparr>,
                  vizCalls := [example_call], marksListeners := [0]\<rparr>"

definition example_rendered_component :: component where
  "example_rendered_component = example_component\<lparr>viz := Some 0\<rparr>"

text \<open>A component whose host has gone away while the library was still loading.\<close>

definition example_detached :: world where
  "example_detached =
     (example_host\<lparr>isConnected := False\<rparr>, example_component\<lparr>isLibLoaded := False\<rparr>)"

definition example_iPhone_agent :: string where
  "example_iPhone_agent = ''SalesforceMobileSDK/7.3.0 iOS/13.3 (iPhone) Chatter/224.0 Hybrid''"

definition example_mixed_agent :: string where
  "example_mixed_agent = ''SalesforceMobileSDK/8.2.0 android/10 (Android) Chatter iPhone''"

text \<open>
  A component waiting for its filter value, whose host has gone away, and the record data
  that then arrives.
\<close>

definition example_record :: "(string \<times> jsval) list" where
  "example_record = [(''Account.Region__c'', JStr ''EMEA'')]"

definition example_awaiting :: world where
  "example_awaiting =
     (example_host\<lparr>isConnected := False\<rparr>,
      example_filtered\<lparr>advancedFilterValue := JUndefined\<rparr>)"

definition example_filtered_call :: viz_call where
  "example_filtered_call =
     example_call\<lparr>call_url :=
       ''https://public.tableau.com/views/Sales/Overview?:size=800,600&Account ID=001x&Region=EMEA''\<rparr>"

section \<open>Notions of the specification\<close>

text \<open>
  The static rename table of the specification, to be compared with the \<^verbatim>\<open>switch\<close> of
  \<^verbatim>\<open>onMarksSelection\<close>.
\<close>

definition rename_table :: "(string \<times> string) list" where
  "rename_table =
     [(''IBDaysOfBacklog (2)'', ''Inbound''), (''BPDaysOfBacklog'', ''Breakpack''),
      (''FC.DOB'', ''Fullcase'')]"

text \<open>
  The shape \<^verbatim>\<open>xxxxxxxx-xxxx-4xxx-yxxx-xxxxxxxxxxxx\<close> of the specification: a hexadecimal
  digit (in lower case) at each \<^verbatim>\<open>x\<close>, one of \<^verbatim>\<open>8\<close>, \<^verbatim>\<open>9\<close>, \<^verbatim>\<open>a\<close>, \<^verbatim>\<open>b\<close> at the
  \<^verbatim>\<open>y\<close>, and the character of the pattern itself everywhere else.
\<close>

definition is_hex_digit :: "char \<Rightarrow> bool" where
  "is_hex_digit c \<longleftrightarrow> c \<in> set ''0123456789abcdef''"

definition shape_ok :: "char \<Rightarrow> char \<Rightarrow> bool" where
  "shape_ok t c =
     (if t = CHR ''x'' then is_hex_digit c
      else if t = CHR ''y'' then c \<in> set ''89ab''
      else c = t)"

definition device_id_shape :: "string \<Rightarrow> bool" where
  "device_id_shape s \<longleftrightarrow> list_all2 shape_ok ''xxxxxxxx-xxxx-4xxx-yxxx-xxxxxxxxxxxx'' s"

text \<open>
  \<^verbatim>\<open>s.indexOf(pat)\<close>, with \<open>None\<close> for \<^verbatim>\<open>-1\<close>; \<open>comes_first s pat other\<close> says that
  \<open>pat\<close> occurs in \<open>s\<close> and that \<open>other\<close> does not occur from an earlier position.
\<close>

fun indexOf :: "string \<Rightarrow> string \<Rightarrow> nat option" where
  "indexOf [] pat = (if pat = [] then Some 0 else None)"
| "indexOf (c # cs) pat =
     (if startsWith (c # cs) pat then Some 0 else map_option Suc (indexOf cs pat))"

definition comes_first :: "string \<Rightarrow> string \<Rightarrow> string \<Rightarrow> bool" where
  "comes_first s pat other =
     (case indexOf s pat of
        None \<Rightarrow> False
      | Some i \<Rightarrow> (case indexOf s other of None \<Rightarrow> True | Some j \<Rightarrow> i < j))"

text \<open>
  The state \<open>Ready\<close> of the specification: every check that \<^verbatim>\<open>renderViz\<close> makes before it
  configures the URL passes, and the placeholder is there.
\<close>

definition ready :: "platform \<Rightarrow> world \<Rightarrow> bool" where
  "ready P w \<longleftrightarrow>
     fst (validateInputs P (snd w)) \<and> \<not> truthy (errorMessage (snd w)) \<and>
     isLibLoaded (snd w) \<and>
     \<not> (truthy (sfAdvancedFilter (snd w)) \<and> advancedFilterValue (snd w) = JUndefined) \<and>
     placeholder (fst w) \<noteq> None"

section \<open>Properties\<close>

subsection \<open>Validation and the checks of \<^verbatim>\<open>renderViz\<close>\<close>

lemma truthy_msgs:
  "truthy (JStr msg_https)" "truthy (JStr msg_hash)" "truthy (JStr msg_filter)"
  by (simp_all add: msg_https_def msg_hash_def msg_filter_def)

lemma validateInputs_True: "fst (validateInputs P c) \<Longrightarrow> validateInputs P c = (True, c)"
  by (simp add: validateInputs_def split: option.splits if_splits)

lemma validateInputs_True_URL:
  "fst (validateInputs P c) \<Longrightarrow> \<exists>u. URL_new P (js_toString (vizUrl c)) = Inr u"
  by (simp add: validateInputs_def validate_url_def split: option.splits if_splits sum.splits)

lemma validateInputs_viz:
  "fst (validateInputs P (c\<lparr>viz := v\<rparr>)) = fst (validateInputs P c)"
  by (simp add: validateInputs_def validate_url_def split: option.splits sum.splits)

lemma renderViz_not_valid:
  "\<not> fst (validateInputs P c) \<Longrightarrow> renderViz P (h, c) = (None, h, snd (validateInputs P c))"
  by (cases "validateInputs P c") (simp add: renderViz_def)

lemma renderViz_valid:
  assumes "validateInputs P c = (True, c)" and "URL_new P (js_toString (vizUrl c)) = Inr u"
  shows "renderViz P (h, c) =
     (if truthy (errorMessage c) then (None, h, c)
      else if \<not> isLibLoaded c then (None, h, c)
      else if truthy (sfAdvancedFilter c) \<and> advancedFilterValue c = JUndefined then (None, h, c)
      else case placeholder h of
        None \<Rightarrow> (Some msg_null, h, c)
      | Some d \<Rightarrow>
          (case configureVizUrl c u d (userAgent h) (random h) of (u', d', r') \<Rightarrow>
             (case Viz_throws P (vizCalls h)
                     \<lparr>call_container = d', call_url = URL_toString P u',
                      call_options = \<lparr>hideTabs = \<not> truthy (showTabs c),
                                        hideToolbar = \<not> truthy (showToolbar c),
                                        opt_height = js_toString (height c) @ ''px'',
                                        opt_width = ''100%''\<rparr>\<rparr> of
                Some msg \<Rightarrow>
                  (Some msg,
                   h\<lparr>placeholder := Some d', random := r',
                     vizCalls := vizCalls h @
                       [\<lparr>call_container = d', call_url = URL_toString P u',
                         call_options = \<lparr>hideTabs = \<not> truthy (showTabs c),
                                           hideToolbar = \<not> truthy (showToolbar c),
                                           opt_height = js_toString (height c) @ ''px'',
                                           opt_width = ''100%''\<rparr>\<rparr>]\<rparr>, c)
              | None \<Rightarrow>
                  (None,
                   h\<lparr>placeholder := Some d', random := r',
                     vizCalls := vizCalls h @
                       [\<lparr>call_container = d', call_url = URL_toString P u',
                         call_options = \<lparr>hideTabs = \<not> truthy (showTabs c),
                                           hideToolbar = \<not> truthy (showToolbar c),
                                           opt_height = js_toString (height c) @ ''px'',
                                           opt_width = ''100%''\<rparr>\<rparr>],
                     marksListeners := marksListeners h @ [length (vizCalls h)]\<rparr>,
                   c\<lparr>viz := Some (length (vizCalls h))\<rparr>))))"
  using assms
  by (simp add: renderViz_def listenToMarksSelection_def Let_def split: option.splits prod.splits)

lemma renderViz_not_ready:
  assumes "\<not> ready P (h, c)"
  shows "fst (snd (renderViz P (h, c))) = h"
proof (cases "fst (validateInputs P c)")
  case False
  then show ?thesis by (simp add: renderViz_not_valid)
next
  case True
  from validateInputs_True_URL [OF True] obtain u where u: "URL_new P (js_toString (vizUrl c)) = Inr u"
    by blast
  from assms True have "truthy (errorMessage c) \<or> \<not> isLibLoaded c \<or>
      (truthy (sfAdvancedFilter c) \<and> advancedFilterValue c = JUndefined) \<or> placeholder h = None"
    by (simp add: ready_def)
  then show ?thesis
    by (simp add: renderViz_valid [OF validateInputs_True [OF True] u]) auto
qed

lemma renderViz_ready:
  assumes "ready P (h, c)"
  shows "(\<exists>call. vizCalls (fst (snd (renderViz P (h, c)))) = vizCalls h @ [call]) \<and>
         placeholder (fst (snd (renderViz P (h, c)))) \<noteq> None \<and>
         snd (snd (renderViz P (h, c))) =
           (if fst (renderViz P (h, c)) = None then c\<lparr>viz := Some (length (vizCalls h))\<rparr> else c)"
proof -
  from assms have t: "fst (validateInputs P c)" by (simp add: ready_def)
  from validateInputs_True_URL [OF t] obtain u where u: "URL_new P (js_toString (vizUrl c)) = Inr u"
    by blast
  from assms obtain d where d: "placeholder h = Some d" by (auto simp: ready_def)
  from assms have g: "\<not> truthy (errorMessage c)" "isLibLoaded c"
    "\<not> (truthy (sfAdvancedFilter c) \<and> advancedFilterValue c = JUndefined)"
    by (simp_all add: ready_def)
  show ?thesis
    by (simp add: renderViz_valid [OF validateInputs_True [OF t] u] g d
        split: prod.splits option.splits)
qed

lemma renderViz_call_url:
  assumes "ready P (h, c)"
  shows "\<exists>u d. URL_new P (js_toString (vizUrl c)) = Inr u \<and> placeholder h = Some d \<and>
           call_url (last (vizCalls (fst (snd (renderViz P (h, c)))))) =
             URL_toString P (fst (configureVizUrl c u d (userAgent h) (random h)))"
proof -
  from assms have t: "fst (validateInputs P c)" by (simp add: ready_def)
  from validateInputs_True_URL [OF t] obtain u where u: "URL_new P (js_toString (vizUrl c)) = Inr u"
    by blast
  from assms obtain d where d: "placeholder h = Some d" by (auto simp: ready_def)
  from assms have g: "\<not> truthy (errorMessage c)" "isLibLoaded c"
    "\<not> (truthy (sfAdvancedFilter c) \<and> advancedFilterValue c = JUndefined)"
    by (simp_all add: ready_def)
  have "call_url (last (vizCalls (fst (snd (renderViz P (h, c)))))) =
          URL_toString P (fst (configureVizUrl c u d (userAgent h) (random h)))"
    by (simp add: renderViz_valid [OF validateInputs_True [OF t] u] g d
        split: prod.splits option.splits)
  with u d show ?thesis by blast
qed

lemma renderViz_isConnected:
  "renderViz P (h\<lparr>isConnected := b\<rparr>, c) =
     (case renderViz P (h, c) of (e, h', c') \<Rightarrow> (e, h'\<lparr>isConnected := b\<rparr>, c'))"
proof (cases "fst (validateInputs P c)")
  case False
  then show ?thesis by (simp add: renderViz_not_valid)
next
  case True
  from validateInputs_True_URL [OF True] obtain u where u: "URL_new P (js_toString (vizUrl c)) = Inr u"
    by blast
  show ?thesis
    by (simp add: renderViz_valid [OF validateInputs_True [OF True] u]
        split: option.splits prod.splits)
qed

lemma searchParams_checkForMobileApp:
  "\<exists>ps. searchParams (fst (checkForMobileApp u ua r)) = searchParams u @ ps"
  by (simp add: checkForMobileApp_def searchParams_append_def split: prod.splits option.splits)

lemma searchParams_configureVizUrl:
  "\<exists>ps. searchParams (fst (configureVizUrl c u d ua r)) =
     searchParams (setVizFilters c (fst (setVizDimensions c u d))) @ ps"
  using searchParams_checkForMobileApp [of "setVizFilters c (fst (setVizDimensions c u d))" ua r]
  by (auto simp: configureVizUrl_def split: prod.splits)

lemma renderViz_keeps:
  "isLibLoaded (snd (snd (renderViz P (h, c)))) = isLibLoaded c \<and>
   advancedFilterValue (snd (snd (renderViz P (h, c)))) = advancedFilterValue c"
proof (cases "fst (validateInputs P c)")
  case False
  then show ?thesis
    by (simp add: renderViz_not_valid) (simp add: validateInputs_def split: option.splits if_splits)
next
  case True
  from validateInputs_True_URL [OF True] obtain u where u: "URL_new P (js_toString (vizUrl c)) = Inr u"
    by blast
  show ?thesis
    by (simp add: renderViz_valid [OF validateInputs_True [OF True] u]
        split: option.splits prod.splits)
qed

lemma renderViz_ready_call:
  "ready P (h, c) \<Longrightarrow> \<exists>call. vizCalls (fst (snd (renderViz P (h, c)))) = vizCalls h @ [call]"
  using renderViz_ready [of P h c] by blast

subsection \<open>The example, evaluated\<close>

lemma example_parse:
  "vizUrl c = vizUrl example_component \<Longrightarrow>
   URL_new example_platform (js_toString (vizUrl c)) = Inr example_url"
  by (simp add: example_platform_def example_URL_new_def example_url_def example_component_def)

lemma example_valid:
  assumes "vizUrl c = vizUrl example_component"
    and "truthy (tabAdvancedFilter c) = truthy (sfAdvancedFilter c)"
  shows "validateInputs example_platform c = (True, c)"
proof -
  have "validate_url example_platform c = None"
    by (simp add: validate_url_def example_parse [OF assms(1)])
       (simp add: example_url_def example_platform_def example_URL_toString_def)
  with assms(2) show ?thesis by (simp add: validateInputs_def)
qed

lemma example_configure:
  assumes "height c = JNum 600" and "filterOnRecordId c = JBool True"
    and "objectApiName c = JStr ''Account''" and "recordId c = JStr ''001x''"
    and "tabAdvancedFilter c = JUndefined"
  shows "configureVizUrl c example_url \<lparr>offsetWidth = 800, styleHeight = s\<rparr>
           (userAgent example_host) r =
         (example_url\<lparr>searchParams := [('':size'', ''800,600''), (''Account ID'', ''001x'')]\<rparr>,
          \<lparr>offsetWidth = 800, styleHeight = ''600px''\<rparr>, r)"
  using assms
  by (simp add: configureVizUrl_def setVizDimensions_def setVizFilters_def
      checkForMobileApp_def searchParams_append_def example_url_def
      example_host_def radix_digits.simps digit_char_def)

lemma example_serialise:
  "URL_toString example_platform
     (example_url\<lparr>searchParams := [('':size'', ''800,600''), (''Account ID'', ''001x'')]\<rparr>) =
   ''https://public.tableau.com/views/Sales/Overview?:size=800,600&Account ID=001x''"
  by (simp add: example_platform_def example_URL_toString_def example_url_def)

lemma example_never_throws: "Viz_throws example_platform calls call = None"
  by (simp add: example_platform_def)

lemma example_height: "radix_digits 10 600 = ''600''"
  by (simp add: radix_digits.simps digit_char_def)

lemma example_first_render:
  "renderViz example_platform (example_host, example_component) =
     (None, example_rendered_host, example_rendered_component)"
proof -
  have v: "validateInputs example_platform example_component = (True, example_component)"
    by (rule example_valid) (simp_all add: example_component_def)
  have u: "URL_new example_platform (js_toString (vizUrl example_component)) = Inr example_url"
    by (rule example_parse) simp
  have k: "configureVizUrl example_component example_url \<lparr>offsetWidth = 800, styleHeight = []\<rparr>
           (userAgent example_host) (random example_host) =
         (example_url\<lparr>searchParams := [('':size'', ''800,600''), (''Account ID'', ''001x'')]\<rparr>,
          \<lparr>offsetWidth = 800, styleHeight = ''600px''\<rparr>, random example_host)"
    by (rule example_configure) (simp_all add: example_component_def)
  have p: "placeholder example_host = Some \<lparr>offsetWidth = 800, styleHeight = []\<rparr>"
    by (simp add: example_host_def)
  show ?thesis
    by (simp add: renderViz_valid [OF v u] p k example_serialise example_never_throws)
       (simp add: example_rendered_host_def example_rendered_component_def example_call_def
          example_component_def example_host_def example_height)
qed

lemma example_second_render:
  "renderViz example_platform (example_rendered_host, example_rendered_component) =
     (None,
      example_rendered_host\<lparr>vizCalls := [example_call, example_call], marksListeners := [0, 1]\<rparr>,
      example_component\<lparr>viz := Some 1\<rparr>)"
proof -
  have v: "validateInputs example_platform example_rendered_component =
      (True, example_rendered_component)"
    by (rule example_valid) (simp_all add: example_rendered_component_def example_component_def)
  have u: "URL_new example_platform (js_toString (vizUrl example_rendered_component)) =
      Inr example_url"
    by (rule example_parse) (simp add: example_rendered_component_def)
  have p: "placeholder example_rendered_host = Some \<lparr>offsetWidth = 800, styleHeight = ''600px''\<rparr>"
    "userAgent example_rendered_host = userAgent example_host"
    by (simp_all add: example_rendered_host_def)
  have k: "configureVizUrl example_rendered_component example_url
             \<lparr>offsetWidth = 800, styleHeight = ''600px''\<rparr>
             (userAgent example_host) (random example_rendered_host) =
         (example_url\<lparr>searchParams := [('':size'', ''800,600''), (''Account ID'', ''001x'')]\<rparr>,
          \<lparr>offsetWidth = 800, styleHeight = ''600px''\<rparr>, random example_rendered_host)"
    by (rule example_configure) (simp_all add: example_rendered_component_def example_component_def)
  show ?thesis
    by (simp add: renderViz_valid [OF v u] p k example_serialise example_never_throws)
       (simp add: example_rendered_host_def example_rendered_component_def example_call_def
          example_component_def example_host_def example_height)
qed

lemma example_detached_resume:
  "connectedCallback_loaded example_platform example_detached =
     (None, example_rendered_host\<lparr>isConnected := False\<rparr>, example_rendered_component)"
proof -
  have v: "validateInputs example_platform example_component = (True, example_component)"
    by (rule example_valid) (simp_all add: example_component_def)
  have u: "URL_new example_platform (js_toString (vizUrl example_component)) = Inr example_url"
    by (rule example_parse) simp
  have p: "placeholder (example_host\<lparr>isConnected := False\<rparr>) =
      Some \<lparr>offsetWidth = 800, styleHeight = []\<rparr>"
    "userAgent (example_host\<lparr>isConnected := False\<rparr>) = userAgent example_host"
    by (simp_all add: example_host_def)
  have k: "configureVizUrl example_component example_url \<lparr>offsetWidth = 800, styleHeight = []\<rparr>
           (userAgent example_host) (random example_host) =
         (example_url\<lparr>searchParams := [('':size'', ''800,600''), (''Account ID'', ''001x'')]\<rparr>,
          \<lparr>offsetWidth = 800, styleHeight = ''600px''\<rparr>, random example_host)"
    by (rule example_configure) (simp_all add: example_component_def)
  have l: "example_component\<lparr>isLibLoaded := False, isLibLoaded := True\<rparr> = example_component"
    by (simp add: example_component_def)
  have "renderViz example_platform (example_host\<lparr>isConnected := False\<rparr>, example_component) =
     (None, example_rendered_host\<lparr>isConnected := False\<rparr>, example_rendered_component)"
    by (simp add: renderViz_valid [OF v u] p k example_serialise example_never_throws)
       (simp add: example_rendered_host_def example_rendered_component_def example_call_def
          example_component_def example_host_def example_height)
  then show ?thesis
    by (simp add: connectedCallback_loaded_def example_detached_def l)
qed

lemma radix_digits_small: "n < b \<Longrightarrow> radix_digits b n = [digit_char n]"
  by (simp add: radix_digits.simps)

lemma example_device_id:
  "generateRandomDeviceId example_rng =
     (''3a18f6d4-b290-47e5-ac3a-18f6d4b2907e'',
      example_rng\<lparr>cryptoPos := 30, mathPos := 1\<rparr>)"
  by (simp add: generateRandomDeviceId_def getRandomSymbol_def example_rng_def js_index_def
      radix_digits_small digit_char_def)

lemma example_configure_filtered:
  "configureVizUrl example_filtered example_url \<lparr>offsetWidth = 800, styleHeight = s\<rparr>
           (userAgent example_host) r =
         (example_url\<lparr>searchParams := [('':size'', ''800,600''), (''Account ID'', ''001x''),
                                       (''Region'', ''EMEA'')]\<rparr>,
          \<lparr>offsetWidth = 800, styleHeight = ''600px''\<rparr>, r)"
  by (simp add: configureVizUrl_def setVizDimensions_def setVizFilters_def
      checkForMobileApp_def searchParams_append_def example_url_def example_filtered_def
      example_component_def example_host_def radix_digits.simps digit_char_def)

lemma example_serialise_filtered:
  "URL_toString example_platform
     (example_url\<lparr>searchParams := [('':size'', ''800,600''), (''Account ID'', ''001x''),
                                    (''Region'', ''EMEA'')]\<rparr>) =
   ''https://public.tableau.com/views/Sales/Overview?:size=800,600&Account ID=001x&Region=EMEA''"
  by (simp add: example_platform_def example_URL_toString_def example_url_def)

lemma example_awaiting_field:
  "getFieldValue example_record (sfAdvancedFilter (snd example_awaiting)) = JStr ''EMEA''"
  by (simp add: getFieldValue_def example_record_def example_awaiting_def example_filtered_def)

lemma example_awaiting_filtered:
  "(snd example_awaiting)\<lparr>advancedFilterValue := JStr ''EMEA''\<rparr> = example_filtered"
  by (simp add: example_awaiting_def example_filtered_def)

lemma example_filtered_render:
  "renderViz example_platform (example_host\<lparr>isConnected := False\<rparr>, example_filtered) =
     (None,
      example_host\<lparr>isConnected := False,
                   placeholder := Some \<lparr>offsetWidth = 800, styleHeight = ''600px''\<rparr>,
                   vizCalls := [example_filtered_call], marksListeners := [0]\<rparr>,
      example_filtered\<lparr>viz := Some 0\<rparr>)"
proof -
  have v: "validateInputs example_platform example_filtered = (True, example_filtered)"
    by (rule example_valid) (simp_all add: example_filtered_def example_component_def)
  have u: "URL_new example_platform (js_toString (vizUrl example_filtered)) = Inr example_url"
    by (rule example_parse) (simp add: example_filtered_def)
  have p: "placeholder (example_host\<lparr>isConnected := False\<rparr>) =
      Some \<lparr>offsetWidth = 800, styleHeight = []\<rparr>"
    by (simp add: example_host_def)
  show ?thesis
    by (simp add: renderViz_valid [OF v u] p example_configure_filtered
          example_serialise_filtered example_never_throws)
       (simp add: example_filtered_call_def example_call_def example_filtered_def
          example_component_def example_host_def example_height)
qed

lemma example_awaiting_resolved:
  "getRecord example_platform None (Some example_record) example_awaiting =
     (None,
      example_host\<lparr>isConnected := False,
                   placeholder := Some \<lparr>offsetWidth = 800, styleHeight = ''600px''\<rparr>,
                   vizCalls := [example_filtered_call], marksListeners := [0]\<rparr>,
      example_filtered\<lparr>viz := Some 0\<rparr>)"
proof -
  have "getRecord example_platform None (Some example_record) example_awaiting =
      renderViz example_platform (fst example_awaiting, example_filtered)"
    using example_awaiting_field example_awaiting_filtered
    by (simp add: getRecord_def Let_def)
  moreover have "fst example_awaiting = example_host\<lparr>isConnected := False\<rparr>"
    by (simp add: example_awaiting_def)
  ultimately show ?thesis by (simp only: example_filtered_render)
qed

subsection \<open>Rendering again\<close>

text \<open>
  C1, as the specification has it, fails: \<^verbatim>\<open>renderViz\<close> holds no record of having rendered.
  From the state reached by the first render of the example, with nothing changed,
  \<^verbatim>\<open>renderedCallback\<close> calls the viz constructor a second time and replaces \<^verbatim>\<open>this.viz\<close>.
\<close>

theorem renderedCallback_again_counterexample:
  "renderViz example_platform (example_host, example_component) =
     (None, example_rendered_host, example_rendered_component) \<and>
   viz example_rendered_component = Some 0 \<and>
   vizCalls example_rendered_host = [example_call] \<and>
   renderedCallback example_platform (example_rendered_host, example_rendered_component) \<noteq>
     (None, example_rendered_host, example_rendered_component) \<and>
   vizCalls (fst (snd (renderedCallback example_platform
       (example_rendered_host, example_rendered_component)))) = [example_call, example_call] \<and>
   viz (snd (snd (renderedCallback example_platform
       (example_rendered_host, example_rendered_component)))) = Some 1"
  by (simp add: example_first_render renderedCallback_def example_second_render)
     (simp add: example_rendered_host_def example_rendered_component_def example_component_def)

text \<open>
  C1, amended. When a call of \<^verbatim>\<open>renderViz\<close> has constructed the viz, the component is
  still \<open>Ready\<close> afterwards, and \<^verbatim>\<open>renderedCallback\<close> in that state, with nothing changed,
  calls the viz constructor once more. If the constructor returns, \<^verbatim>\<open>this.viz\<close> becomes
  the new instance and nothing else in the component changes; if it throws, the component
  is as it was.
\<close>

theorem renderViz_reentry_constructs_again:
  assumes "renderViz P (h, c) = (None, h1, c1)" and "vizCalls h1 \<noteq> vizCalls h"
  shows "ready P (h1, c1) \<and>
         (\<exists>call. vizCalls (fst (snd (renderedCallback P (h1, c1)))) = vizCalls h1 @ [call]) \<and>
         snd (snd (renderedCallback P (h1, c1))) =
           (if fst (renderedCallback P (h1, c1)) = None
            then c1\<lparr>viz := Some (length (vizCalls h1))\<rparr> else c1)"
proof -
  have r: "ready P (h, c)"
  proof (rule ccontr)
    assume "\<not> ready P (h, c)"
    from renderViz_not_ready [OF this] assms show False by simp
  qed
  from renderViz_ready [OF r] assms(1)
  have p: "placeholder h1 \<noteq> None" and c1: "c1 = c\<lparr>viz := Some (length (vizCalls h))\<rparr>"
    by simp_all
  from r have r1: "ready P (h1, c1)"
    by (simp add: ready_def c1 p validateInputs_viz)
  from renderViz_ready [OF r1] r1 show ?thesis
    by (simp add: renderedCallback_def)
qed

theorem renderViz_reentry_constructs_again_witness:
  "renderViz example_platform (example_host, example_component) =
     (None, example_rendered_host, example_rendered_component) \<and>
   vizCalls example_rendered_host \<noteq> vizCalls example_host \<and>
   ready example_platform (example_rendered_host, example_rendered_component) \<and>
   vizCalls (fst (snd (renderedCallback example_platform
       (example_rendered_host, example_rendered_component)))) =
     vizCalls example_rendered_host @ [example_call] \<and>
   snd (snd (renderedCallback example_platform
       (example_rendered_host, example_rendered_component))) =
     example_rendered_component\<lparr>viz := Some 1\<rparr>"
proof -
  have n: "vizCalls example_rendered_host \<noteq> vizCalls example_host"
    by (simp add: example_rendered_host_def example_host_def)
  have l: "length (vizCalls example_rendered_host) = 1"
    by (simp add: example_rendered_host_def)
  from renderViz_reentry_constructs_again [OF example_first_render n] n l
  show ?thesis
    by (simp add: example_first_render renderedCallback_def example_second_render)
qed

subsection \<open>The advanced filter\<close>

text \<open>
  C2, as the specification has it, fails: with both filter fields set and the resolved
  value the number 0, which is defined and not the empty string, no parameter is appended.
\<close>

theorem setVizFilters_zero_counterexample:
  "truthy (tabAdvancedFilter (example_filtered\<lparr>advancedFilterValue := JNum 0\<rparr>)) \<and>
   truthy (sfAdvancedFilter (example_filtered\<lparr>advancedFilterValue := JNum 0\<rparr>)) \<and>
   advancedFilterValue (example_filtered\<lparr>advancedFilterValue := JNum 0\<rparr>) \<noteq> JUndefined \<and>
   js_toString (advancedFilterValue (example_filtered\<lparr>advancedFilterValue := JNum 0\<rparr>)) \<noteq> [] \<and>
   (''Region'', ''0'') \<notin>
     set (searchParams (setVizFilters (example_filtered\<lparr>advancedFilterValue := JNum 0\<rparr>) example_url)) \<and>
   searchParams (setVizFilters (example_filtered\<lparr>advancedFilterValue := JNum 0\<rparr>) example_url) =
     [(''Account ID'', ''001x'')]"
  by (simp add: setVizFilters_def searchParams_append_def example_filtered_def
      example_component_def example_url_def radix_digits.simps)

text \<open>
  C2, amended. With both filter fields set, the parameter named by \<^verbatim>\<open>tabAdvancedFilter\<close> is
  appended, after what the record-id filter appends, if and only if the resolved value is
  truthy; its value is then the text of the resolved value. The falsy values
  \<^verbatim>\<open>undefined\<close>, \<^verbatim>\<open>null\<close>, \<^verbatim>\<open>false\<close>, \<^verbatim>\<open>0\<close> and the empty string append nothing.
\<close>

theorem setVizFilters_advanced_truthy:
  assumes "truthy (tabAdvancedFilter c)" and "truthy (sfAdvancedFilter c)"
  shows "searchParams (setVizFilters c u) =
           searchParams (setVizFilters (c\<lparr>advancedFilterValue := JUndefined\<rparr>) u) @
           (if truthy (advancedFilterValue c)
            then [(js_toString (tabAdvancedFilter c), js_toString (advancedFilterValue c))]
            else [])"
  using assms by (simp add: setVizFilters_def searchParams_append_def Let_def)

theorem setVizFilters_advanced_truthy_witness:
  "truthy (tabAdvancedFilter example_filtered) \<and> truthy (sfAdvancedFilter example_filtered) \<and>
   truthy (advancedFilterValue example_filtered) \<and>
   searchParams (setVizFilters example_filtered example_url) =
     [(''Account ID'', ''001x''), (''Region'', ''EMEA'')]"
  using setVizFilters_advanced_truthy [of example_filtered example_url]
  by (simp add: setVizFilters_def searchParams_append_def example_filtered_def
      example_component_def example_url_def)

subsection \<open>Mobile detection\<close>

lemma is_hex_digit_digit_char: "k < 16 \<Longrightarrow> is_hex_digit (digit_char k)"
proof -
  assume "k < 16"
  then have "k < length ''0123456789abcdef''" by simp
  then have "''0123456789abcdef'' ! k \<in> set ''0123456789abcdef''" by (rule nth_mem)
  then show ?thesis by (simp only: is_hex_digit_def digit_char_def)
qed

lemma getRandomSymbol_x:
  "fst (getRandomSymbol ''x'' r) = [digit_char (unat (cryptoSrc r (cryptoPos r)) mod 16)] \<and>
   is_hex_digit (digit_char (unat (cryptoSrc r (cryptoPos r)) mod 16))"
  by (simp add: getRandomSymbol_def radix_digits_small is_hex_digit_digit_char)

lemma floor_times4:
  fixes q :: rat
  assumes "0 \<le> q" "q < 1"
  shows "\<lfloor>q * 4\<rfloor> \<in> {0, 1, 2, 3}"
proof -
  have "0 \<le> \<lfloor>q * 4\<rfloor>" using assms by simp
  moreover have "\<lfloor>q * 4\<rfloor> < 4" using assms by (simp add: floor_less_iff)
  ultimately show ?thesis by (simp; arith)
qed

lemma getRandomSymbol_y:
  assumes "0 \<le> mathSrc r (mathPos r)" "mathSrc r (mathPos r) < 1"
  shows "\<exists>d. fst (getRandomSymbol ''y'' r) = [d] \<and> d \<in> set ''89ab''"
proof -
  from floor_times4 [OF assms]
  consider "\<lfloor>mathSrc r (mathPos r) * 4\<rfloor> = 0" | "\<lfloor>mathSrc r (mathPos r) * 4\<rfloor> = 1"
    | "\<lfloor>mathSrc r (mathPos r) * 4\<rfloor> = 2" | "\<lfloor>mathSrc r (mathPos r) * 4\<rfloor> = 3"
    by auto
  then show ?thesis
    using assms by cases (simp_all add: getRandomSymbol_def js_index_def Let_def)
qed

lemma getRandomSymbol_mathSrc: "mathSrc (snd (getRandomSymbol s r)) = mathSrc r"
  by (simp add: getRandomSymbol_def Let_def)

lemma replace_xy_shape:
  assumes "\<forall>n. 0 \<le> mathSrc r n \<and> mathSrc r n < 1"
  shows "list_all2 shape_ok t (fst (replace_xy t r))"
  using assms
proof (induction t arbitrary: r)
  case Nil
  then show ?case by simp
next
  case (Cons c cs)
  show ?case
  proof (cases "c = CHR ''x'' \<or> c = CHR ''y''")
    case False
    then have "shape_ok c c" by (simp add: shape_ok_def)
    with Cons.IH [OF Cons.prems] False show ?thesis
      by (cases "replace_xy cs r") simp
  next
    case True
    obtain s r1 where g: "getRandomSymbol [c] r = (s, r1)" by (cases "getRandomSymbol [c] r")
    have "mathSrc r1 = mathSrc r" using getRandomSymbol_mathSrc [of "[c]" r] g by simp
    with Cons.prems have "\<forall>n. 0 \<le> mathSrc r1 n \<and> mathSrc r1 n < 1" by simp
    from Cons.IH [OF this] have ih: "list_all2 shape_ok cs (fst (replace_xy cs r1))" .
    have "\<exists>d. s = [d] \<and> shape_ok c d"
    proof (cases "c = CHR ''x''")
      case True
      with getRandomSymbol_x [of r] g show ?thesis by (simp add: shape_ok_def)
    next
      case False
      with \<open>c = CHR ''x'' \<or> c = CHR ''y''\<close> have y: "c = CHR ''y''" by simp
      from Cons.prems have "0 \<le> mathSrc r (mathPos r)" "mathSrc r (mathPos r) < 1" by simp_all
      from getRandomSymbol_y [OF this] g y show ?thesis by (auto simp: shape_ok_def)
    qed
    then obtain d where "s = [d]" "shape_ok c d" by blast
    with ih g True show ?thesis by (cases "replace_xy cs r1") auto
  qed
qed

lemma exec_deviceNameRegex_first:
  assumes "comes_first ua ''iPhone'' ''Android''" and "comes_first ua ''iPhone'' ''iPad''"
  shows "exec_deviceNameRegex ua = Some ''iPhone''"
  using assms
proof (induction ua)
  case Nil
  then show ?case by (simp add: comes_first_def)
next
  case (Cons c cs)
  show ?case
  proof (cases "startsWith (c # cs) ''iPhone''")
    case True
    then show ?thesis by simp
  next
    case False
    from False Cons.prems obtain i where i: "indexOf cs ''iPhone'' = Some i"
      by (auto simp: comes_first_def split: option.splits if_splits)
    from False Cons.prems i have na: "\<not> startsWith (c # cs) ''Android''"
      and np: "\<not> startsWith (c # cs) ''iPad''"
      by (auto simp: comes_first_def split: option.splits if_splits)
    from False na np Cons.prems i have "comes_first cs ''iPhone'' ''Android''"
      "comes_first cs ''iPhone'' ''iPad''"
      by (auto simp: comes_first_def split: option.splits if_splits)
    from Cons.IH [OF this] False na np show ?thesis by simp
  qed
qed

lemma exec_deviceIdRegex_None: "\<not> str_includes ua ''uid_'' \<Longrightarrow> exec_deviceIdRegex ua = None"
  by (induction ua) auto

text \<open>
  C3, as the specification has it, fails: the device name is taken from the first of
  \<^verbatim>\<open>iPhone\<close>, \<^verbatim>\<open>Android\<close>, \<^verbatim>\<open>iPad\<close> that occurs. This user agent has the marker and
  \<^verbatim>\<open>iPhone\<close> and no \<^verbatim>\<open>uid_\<close>, and the device name is \<^verbatim>\<open>SFMobileApp_Android\<close>.
\<close>

theorem checkForMobileApp_first_token_counterexample:
  "str_includes example_mixed_agent ''SalesforceMobileSDK'' \<and>
   str_includes example_mixed_agent ''iPhone'' \<and>
   \<not> str_includes example_mixed_agent ''uid_'' \<and>
   ('':device_name'', ''SFMobileApp_iPhone'') \<notin>
     set (searchParams (fst (checkForMobileApp example_url example_mixed_agent example_rng))) \<and>
   searchParams (fst (checkForMobileApp example_url example_mixed_agent example_rng)) =
     [('':use_rt'', ''y''), ('':client_id'', ''TableauVizLWC''),
      ('':device_id'', ''3a18f6d4-b290-47e5-ac3a-18f6d4b2907e''),
      ('':device_name'', ''SFMobileApp_Android'')]"
proof -
  have a: "str_includes example_mixed_agent ''SalesforceMobileSDK''"
    by (simp add: example_mixed_agent_def)
  have b: "str_includes example_mixed_agent ''iPhone''"
    by (simp add: example_mixed_agent_def)
  have c: "\<not> str_includes example_mixed_agent ''uid_''"
    by (simp add: example_mixed_agent_def)
  have d: "exec_deviceIdRegex example_mixed_agent = None"
    by (simp add: example_mixed_agent_def)
  have e: "exec_deviceNameRegex example_mixed_agent = Some ''Android''"
    by (simp add: example_mixed_agent_def)
  show ?thesis
    using a b c d e
    by (simp add: checkForMobileApp_def searchParams_append_def example_device_id example_url_def)
qed

text \<open>
  C3, amended. For a user agent that has the marker \<^verbatim>\<open>SalesforceMobileSDK\<close>, in which
  \<^verbatim>\<open>uid_([\w|-]+)\<close> has no match (so, in particular, when \<^verbatim>\<open>uid_\<close> does not occur, by
  \<open>exec_deviceIdRegex_None\<close>) and in which \<^verbatim>\<open>iPhone\<close> occurs with no \<^verbatim>\<open>Android\<close> and no
  \<^verbatim>\<open>iPad\<close> from an earlier position, \<^verbatim>\<open>checkForMobileApp\<close> appends the four mobile
  parameters, with device name \<^verbatim>\<open>SFMobileApp_iPhone\<close> and a generated device id of the
  shape \<^verbatim>\<open>xxxxxxxx-xxxx-4xxx-yxxx-xxxxxxxxxxxx\<close>. \<^verbatim>\<open>Math.random\<close> is taken to return values
  from 0 up to, not including, 1, as it is specified to.
\<close>

theorem checkForMobileApp_iPhone:
  assumes "str_includes ua ''SalesforceMobileSDK''"
    and "exec_deviceIdRegex ua = None"
    and "comes_first ua ''iPhone'' ''Android''"
    and "comes_first ua ''iPhone'' ''iPad''"
    and "\<forall>n. 0 \<le> mathSrc r n \<and> mathSrc r n < 1"
  shows "searchParams (fst (checkForMobileApp u ua r)) =
           searchParams u @
           [('':use_rt'', ''y''), ('':client_id'', ''TableauVizLWC''),
            ('':device_id'', fst (generateRandomDeviceId r)),
            ('':device_name'', ''SFMobileApp_iPhone'')] \<and>
         device_id_shape (fst (generateRandomDeviceId r))"
proof -
  have n: "exec_deviceNameRegex ua = Some ''iPhone''"
    using assms(3,4) by (rule exec_deviceNameRegex_first)
  have s: "device_id_shape (fst (generateRandomDeviceId r))"
    unfolding device_id_shape_def generateRandomDeviceId_def
    using assms(5) by (rule replace_xy_shape)
  have "searchParams (fst (checkForMobileApp u ua r)) =
           searchParams u @
           [('':use_rt'', ''y''), ('':client_id'', ''TableauVizLWC''),
            ('':device_id'', fst (generateRandomDeviceId r)),
            ('':device_name'', ''SFMobileApp_iPhone'')]"
    using assms(1,2) n
    by (cases "generateRandomDeviceId r")
       (simp add: checkForMobileApp_def searchParams_append_def)
  with s show ?thesis by simp
qed

theorem checkForMobileApp_iPhone_witness:
  "str_includes example_iPhone_agent ''SalesforceMobileSDK'' \<and>
   exec_deviceIdRegex example_iPhone_agent = None \<and>
   comes_first example_iPhone_agent ''iPhone'' ''Android'' \<and>
   comes_first example_iPhone_agent ''iPhone'' ''iPad'' \<and>
   (\<forall>n. 0 \<le> mathSrc example_rng n \<and> mathSrc example_rng n < 1) \<and>
   searchParams (fst (checkForMobileApp example_url example_iPhone_agent example_rng)) =
     [('':use_rt'', ''y''), ('':client_id'', ''TableauVizLWC''),
      ('':device_id'', ''3a18f6d4-b290-47e5-ac3a-18f6d4b2907e''),
      ('':device_name'', ''SFMobileApp_iPhone'')] \<and>
   device_id_shape ''3a18f6d4-b290-47e5-ac3a-18f6d4b2907e''"
proof -
  have a: "str_includes example_iPhone_agent ''SalesforceMobileSDK''"
    by (simp add: example_iPhone_agent_def)
  have b: "exec_deviceIdRegex example_iPhone_agent = None"
    by (simp add: example_iPhone_agent_def)
  have c: "comes_first example_iPhone_agent ''iPhone'' ''Android''"
    by (simp add: example_iPhone_agent_def comes_first_def)
  have d: "comes_first example_iPhone_agent ''iPhone'' ''iPad''"
    by (simp add: example_iPhone_agent_def comes_first_def)
  have e: "\<forall>n. 0 \<le> mathSrc example_rng n \<and> mathSrc example_rng n < 1"
    by (simp add: example_rng_def)
  from checkForMobileApp_iPhone [OF a b c d e, of example_url] a b c d e
  show ?thesis by (simp add: example_device_id example_url_def)
qed

subsection \<open>Selection events\<close>

text \<open>
  C4. A selection on a worksheet hands \<^verbatim>\<open>publish\<close> one payload, whose \<^verbatim>\<open>selectedTarget\<close>
  is the worksheet name looked up in the rename table, or the name itself when the table
  has no entry for it: \<^verbatim>\<open>BPDaysOfBacklog\<close> gives \<^verbatim>\<open>Breakpack\<close>, \<^verbatim>\<open>Foo\<close> gives \<^verbatim>\<open>Foo\<close>.
\<close>

theorem onMarksSelection_payload:
  "published (onMarksSelection n h) =
     published h @
     [\<lparr>selectedTarget = (case map_of rename_table n of None \<Rightarrow> n | Some t \<Rightarrow> t)\<rparr>] \<and>
   published (onMarksSelection ''BPDaysOfBacklog'' h) =
     published h @ [\<lparr>selectedTarget = ''Breakpack''\<rparr>] \<and>
   published (onMarksSelection ''Foo'' h) = published h @ [\<lparr>selectedTarget = ''Foo''\<rparr>]"
  by (simp add: onMarksSelection_def fireLwcMarkEvent_def rename_table_def Let_def)

subsection \<open>Invalid configurations\<close>

text \<open>
  C5. When exactly one of \<^verbatim>\<open>tabAdvancedFilter\<close> and \<^verbatim>\<open>sfAdvancedFilter\<close> is set (truthy),
  whatever the other fields and the platform are, \<^verbatim>\<open>validateInputs\<close> returns \<^verbatim>\<open>false\<close> and
  leaves a non-empty error message, and \<^verbatim>\<open>renderViz\<close> returns at once: it throws nothing,
  touches nothing outside the component and builds no URL.
\<close>

theorem validateInputs_mismatched_filter_pair:
  assumes "truthy (tabAdvancedFilter c) \<noteq> truthy (sfAdvancedFilter c)"
  shows "fst (validateInputs P c) = False \<and>
         truthy (errorMessage (snd (validateInputs P c))) \<and>
         renderViz P (h, c) = (None, h, snd (validateInputs P c))"
proof -
  have f: "\<not> fst (validateInputs P c)"
    using assms by (auto simp: validateInputs_def split: option.splits)
  have m: "truthy (errorMessage (snd (validateInputs P c)))"
    using assms by (auto simp: validateInputs_def msg_filter_def split: option.splits)
  from f m renderViz_not_valid [OF f] show ?thesis by simp
qed

theorem validateInputs_mismatched_filter_pair_witness:
  "truthy (tabAdvancedFilter (example_component\<lparr>tabAdvancedFilter := JStr ''Region''\<rparr>)) \<noteq>
     truthy (sfAdvancedFilter (example_component\<lparr>tabAdvancedFilter := JStr ''Region''\<rparr>)) \<and>
   validateInputs example_platform (example_component\<lparr>tabAdvancedFilter := JStr ''Region''\<rparr>) =
     (False, example_component\<lparr>tabAdvancedFilter := JStr ''Region'',
                               errorMessage := JStr msg_filter\<rparr>) \<and>
   renderViz example_platform
       (example_host, example_component\<lparr>tabAdvancedFilter := JStr ''Region''\<rparr>) =
     (None, example_host,
      example_component\<lparr>tabAdvancedFilter := JStr ''Region'', errorMessage := JStr msg_filter\<rparr>)"
proof -
  have v: "validateInputs example_platform
             (example_component\<lparr>tabAdvancedFilter := JStr ''Region''\<rparr>) =
           (False, example_component\<lparr>tabAdvancedFilter := JStr ''Region'',
                                     errorMessage := JStr msg_filter\<rparr>)"
    by (simp add: validateInputs_def validate_url_def example_platform_def example_URL_new_def
        example_URL_toString_def example_component_def)
  have hyp: "truthy (tabAdvancedFilter (example_component\<lparr>tabAdvancedFilter := JStr ''Region''\<rparr>)) \<noteq>
     truthy (sfAdvancedFilter (example_component\<lparr>tabAdvancedFilter := JStr ''Region''\<rparr>))"
    by (simp add: example_component_def)
  from validateInputs_mismatched_filter_pair [OF hyp, of example_platform example_host] v hyp
  show ?thesis by simp
qed

text \<open>
  C6. When \<^verbatim>\<open>vizUrl\<close> parses to a URL whose protocol is not \<^verbatim>\<open>https:\<close>, \<^verbatim>\<open>validateInputs\<close>
  returns \<^verbatim>\<open>false\<close> and records the HTTPS message, which is not empty, and \<^verbatim>\<open>renderViz\<close>
  returns at once without producing an embed URL.
\<close>

theorem validateInputs_non_https:
  assumes "URL_new P (js_toString (vizUrl c)) = Inr u" and "protocol u \<noteq> ''https:''"
  shows "validateInputs P c = (False, c\<lparr>errorMessage := JStr msg_https\<rparr>) \<and>
         truthy (JStr msg_https) \<and>
         renderViz P (h, c) = (None, h, c\<lparr>errorMessage := JStr msg_https\<rparr>)"
proof -
  have v: "validateInputs P c = (False, c\<lparr>errorMessage := JStr msg_https\<rparr>)"
    using assms by (simp add: validateInputs_def validate_url_def msg_https_def)
  then have "\<not> fst (validateInputs P c)" by simp
  from renderViz_not_valid [OF this] v truthy_msgs(1) show ?thesis by simp
qed

theorem validateInputs_non_https_witness:
  "URL_new example_platform
       (js_toString (vizUrl (example_component\<lparr>vizUrl := JStr ''http://example.com/views/a''\<rparr>))) =
     Inr \<lparr>parsedFrom = ''http://example.com/views/a'', protocol = ''http:'',
          origin = ''http://example.com'', searchParams = []\<rparr> \<and>
   ''http:'' \<noteq> ''https:'' \<and>
   renderViz example_platform
       (example_host, example_component\<lparr>vizUrl := JStr ''http://example.com/views/a''\<rparr>) =
     (None, example_host,
      example_component\<lparr>vizUrl := JStr ''http://example.com/views/a'',
                        errorMessage := JStr msg_https\<rparr>)"
proof -
  have p: "URL_new example_platform
             (js_toString (vizUrl (example_component\<lparr>vizUrl := JStr ''http://example.com/views/a''\<rparr>))) =
           Inr \<lparr>parsedFrom = ''http://example.com/views/a'', protocol = ''http:'',
                origin = ''http://example.com'', searchParams = []\<rparr>"
    by (simp add: example_platform_def example_URL_new_def)
  show ?thesis
    using validateInputs_non_https [OF p, of example_host] p by simp
qed

subsection \<open>The record-id filter\<close>

text \<open>
  C7. With \<^verbatim>\<open>filterOnRecordId\<close> \<^verbatim>\<open>true\<close>, \<^verbatim>\<open>objectApiName\<close> \<^verbatim>\<open>"Account"\<close> and \<^verbatim>\<open>recordId\<close>
  \<^verbatim>\<open>"001x"\<close>, the URL has the parameter \<^verbatim>\<open>Account ID\<close> with value \<^verbatim>\<open>001x\<close>: after
  \<^verbatim>\<open>setVizFilters\<close>, after the whole configuration of the URL, and so in the URL whose
  serialisation \<^verbatim>\<open>renderViz\<close> hands to the viz constructor whenever its checks pass.
\<close>

theorem setVizFilters_record_id:
  assumes "filterOnRecordId c = JBool True"
    and "objectApiName c = JStr ''Account''"
    and "recordId c = JStr ''001x''"
  shows "(''Account ID'', ''001x'') \<in> set (searchParams (setVizFilters c u)) \<and>
         (''Account ID'', ''001x'') \<in> set (searchParams (fst (configureVizUrl c u d ua r))) \<and>
         (ready P (h, c) \<longrightarrow>
            (\<exists>v. call_url (last (vizCalls (fst (snd (renderViz P (h, c)))))) = URL_toString P v \<and>
                 (''Account ID'', ''001x'') \<in> set (searchParams v)))"
proof -
  have a: "(''Account ID'', ''001x'') \<in> set (searchParams (setVizFilters c v))" for v
    using assms by (simp add: setVizFilters_def searchParams_append_def Let_def)
  have b: "(''Account ID'', ''001x'') \<in> set (searchParams (fst (configureVizUrl c v e ua' r')))"
    for v e ua' r'
  proof -
    obtain ps where "searchParams (fst (configureVizUrl c v e ua' r')) =
        searchParams (setVizFilters c (fst (setVizDimensions c v e))) @ ps"
      using searchParams_configureVizUrl by blast
    with a [of "fst (setVizDimensions c v e)"] show ?thesis by simp
  qed
  have "\<exists>v. call_url (last (vizCalls (fst (snd (renderViz P (h, c)))))) = URL_toString P v \<and>
                 (''Account ID'', ''001x'') \<in> set (searchParams v)" if "ready P (h, c)"
    using renderViz_call_url [OF that] b by blast
  with a b show ?thesis by blast
qed

theorem setVizFilters_record_id_witness:
  "filterOnRecordId example_component = JBool True \<and>
   objectApiName example_component = JStr ''Account'' \<and>
   recordId example_component = JStr ''001x'' \<and>
   ready example_platform (example_host, example_component) \<and>
   (''Account ID'', ''001x'') \<in> set (searchParams (setVizFilters example_component example_url)) \<and>
   (\<exists>v. ''https://public.tableau.com/views/Sales/Overview?:size=800,600&Account ID=001x'' =
          URL_toString example_platform v \<and>
        (''Account ID'', ''001x'') \<in> set (searchParams v))"
proof -
  have h: "filterOnRecordId example_component = JBool True"
    "objectApiName example_component = JStr ''Account''"
    "recordId example_component = JStr ''001x''"
    by (simp_all add: example_component_def)
  have v: "validateInputs example_platform example_component = (True, example_component)"
    by (rule example_valid) (simp_all add: example_component_def)
  have r: "ready example_platform (example_host, example_component)"
    by (simp add: ready_def v) (simp add: example_component_def example_host_def)
  have l: "call_url (last (vizCalls (fst (snd (renderViz example_platform
             (example_host, example_component)))))) =
           ''https://public.tableau.com/views/Sales/Overview?:size=800,600&Account ID=001x''"
    by (simp add: example_first_render) (simp add: example_rendered_host_def example_call_def)
  from setVizFilters_record_id [OF h, of example_url _ _ _ example_platform example_host] h r
  show ?thesis by (simp add: l)
qed

subsection \<open>Completion after the host has gone\<close>

text \<open>
  C8, as the specification has it, fails: the component keeps no liveness flag and its
  callbacks test none. Here the host is no longer connected when the library load
  completes; the continuation of \<^verbatim>\<open>connectedCallback\<close> sets \<^verbatim>\<open>isLibLoaded\<close>, assigns the
  height of the placeholder and constructs a viz on it.
\<close>

theorem detached_completion_counterexample:
  "\<not> isConnected (fst example_detached) \<and>
   \<not> isLibLoaded (snd example_detached) \<and>
   vizCalls (fst example_detached) = [] \<and>
   isLibLoaded (snd (snd (connectedCallback_loaded example_platform example_detached))) \<and>
   placeholder (fst (snd (connectedCallback_loaded example_platform example_detached))) =
     Some \<lparr>offsetWidth = 800, styleHeight = ''600px''\<rparr> \<and>
   vizCalls (fst (snd (connectedCallback_loaded example_platform example_detached))) =
     [example_call]"
  by (simp add: example_detached_resume)
     (simp add: example_detached_def example_rendered_host_def example_rendered_component_def
        example_host_def example_component_def)

text \<open>
  C8, amended. The completion callbacks check no liveness flag, whether or not the host is
  still connected (the host \<open>h\<close> is arbitrary). When the library has loaded, the
  continuation of \<^verbatim>\<open>connectedCallback\<close> sets \<^verbatim>\<open>isLibLoaded\<close> and runs \<^verbatim>\<open>renderViz\<close>, which
  calls the viz constructor on the placeholder whenever its checks pass. When record data
  arrives, \<^verbatim>\<open>getRecord\<close> stores the field value; it records an error message if the value
  is \<^verbatim>\<open>undefined\<close> and runs \<^verbatim>\<open>renderViz\<close> otherwise, again constructing the viz whenever
  the checks pass; when an error arrives instead, it records the message. None of this
  depends on the host's flag, which the callbacks leave as it is.
\<close>

theorem late_callbacks_ignore_liveness:
  "connectedCallback_loaded P (h, c) = renderViz P (h, c\<lparr>isLibLoaded := True\<rparr>) \<and>
   isLibLoaded (snd (snd (connectedCallback_loaded P (h, c)))) \<and>
   (ready P (h, c\<lparr>isLibLoaded := True\<rparr>) \<longrightarrow>
      (\<exists>call. vizCalls (fst (snd (connectedCallback_loaded P (h, c)))) = vizCalls h @ [call])) \<and>
   advancedFilterValue (snd (snd (getRecord P err (Some d) (h', c')))) =
     getFieldValue d (sfAdvancedFilter c') \<and>
   (getFieldValue d (sfAdvancedFilter c') = JUndefined \<longrightarrow>
      getRecord P err (Some d) (h', c') =
        (None, h', c'\<lparr>advancedFilterValue := JUndefined,
                      errorMessage := JStr (''Failed to retrieve value for field '' @
                                            js_toString (sfAdvancedFilter c'))\<rparr>)) \<and>
   (getFieldValue d (sfAdvancedFilter c') \<noteq> JUndefined \<longrightarrow>
      getRecord P err (Some d) (h', c') =
        renderViz P (h', c'\<lparr>advancedFilterValue := getFieldValue d (sfAdvancedFilter c')\<rparr>)) \<and>
   (getFieldValue d (sfAdvancedFilter c') \<noteq> JUndefined \<and>
    ready P (h', c'\<lparr>advancedFilterValue := getFieldValue d (sfAdvancedFilter c')\<rparr>) \<longrightarrow>
      (\<exists>call. vizCalls (fst (snd (getRecord P err (Some d) (h', c')))) = vizCalls h' @ [call])) \<and>
   getRecord P (Some e) None (h', c') =
     (None, h', c'\<lparr>errorMessage := JStr (''Failed to retrieve record data: '' @
                                          reduceErrors P e)\<rparr>) \<and>
   connectedCallback_loaded P (h\<lparr>isConnected := b\<rparr>, c) =
     (case connectedCallback_loaded P (h, c) of (e, h1, c1) \<Rightarrow> (e, h1\<lparr>isConnected := b\<rparr>, c1)) \<and>
   getRecord P err data (h'\<lparr>isConnected := b\<rparr>, c') =
     (case getRecord P err data (h', c') of (e, h1, c1) \<Rightarrow> (e, h1\<lparr>isConnected := b\<rparr>, c1))"
proof -
  have a: "connectedCallback_loaded P (h, c) = renderViz P (h, c\<lparr>isLibLoaded := True\<rparr>)"
    by (simp add: connectedCallback_loaded_def)
  have b: "isLibLoaded (snd (snd (connectedCallback_loaded P (h, c))))"
    by (simp add: a renderViz_keeps)
  have c: "ready P (h, c\<lparr>isLibLoaded := True\<rparr>) \<longrightarrow>
      (\<exists>call. vizCalls (fst (snd (connectedCallback_loaded P (h, c)))) = vizCalls h @ [call])"
    by (simp add: a renderViz_ready_call)
  have u: "getFieldValue d (sfAdvancedFilter c') = JUndefined \<longrightarrow>
      getRecord P err (Some d) (h', c') =
        (None, h', c'\<lparr>advancedFilterValue := JUndefined,
                      errorMessage := JStr (''Failed to retrieve value for field '' @
                                            js_toString (sfAdvancedFilter c'))\<rparr>)"
    by (simp add: getRecord_def Let_def)
  have r: "getFieldValue d (sfAdvancedFilter c') \<noteq> JUndefined \<longrightarrow>
      getRecord P err (Some d) (h', c') =
        renderViz P (h', c'\<lparr>advancedFilterValue := getFieldValue d (sfAdvancedFilter c')\<rparr>)"
    by (simp add: getRecord_def Let_def)
  have v: "advancedFilterValue (snd (snd (getRecord P err (Some d) (h', c')))) =
     getFieldValue d (sfAdvancedFilter c')"
  proof (cases "getFieldValue d (sfAdvancedFilter c') = JUndefined")
    case True
    with u show ?thesis by simp
  next
    case False
    with r show ?thesis by (simp add: renderViz_keeps)
  qed
  have k: "getFieldValue d (sfAdvancedFilter c') \<noteq> JUndefined \<and>
    ready P (h', c'\<lparr>advancedFilterValue := getFieldValue d (sfAdvancedFilter c')\<rparr>) \<longrightarrow>
      (\<exists>call. vizCalls (fst (snd (getRecord P err (Some d) (h', c')))) = vizCalls h' @ [call])"
    using r renderViz_ready_call by auto
  have f: "getRecord P (Some e) None (h', c') =
     (None, h', c'\<lparr>errorMessage := JStr (''Failed to retrieve record data: '' @
                                          reduceErrors P e)\<rparr>)"
    by (simp add: getRecord_def)
  have i: "connectedCallback_loaded P (h\<lparr>isConnected := b\<rparr>, c) =
     (case connectedCallback_loaded P (h, c) of (e, h1, c1) \<Rightarrow> (e, h1\<lparr>isConnected := b\<rparr>, c1))"
    by (simp add: connectedCallback_loaded_def renderViz_isConnected)
  have j: "getRecord P err data (h'\<lparr>isConnected := b\<rparr>, c') =
     (case getRecord P err data (h', c') of (e, h1, c1) \<Rightarrow> (e, h1\<lparr>isConnected := b\<rparr>, c1))"
    by (simp add: getRecord_def renderViz_isConnected Let_def split: option.splits)
  from a b c v u r k f i j show ?thesis by blast
qed

theorem late_callbacks_ignore_liveness_witness:
  "\<not> isConnected (fst example_detached) \<and> \<not> isConnected (fst example_awaiting) \<and>
   ready example_platform (fst example_detached, (snd example_detached)\<lparr>isLibLoaded := True\<rparr>) \<and>
   isLibLoaded (snd (snd (connectedCallback_loaded example_platform example_detached))) \<and>
   (\<exists>call. vizCalls (fst (snd (connectedCallback_loaded example_platform example_detached))) =
      vizCalls (fst example_detached) @ [call]) \<and>
   vizCalls (fst (snd (connectedCallback_loaded example_platform example_detached))) =
     [example_call] \<and>
   getFieldValue example_record (sfAdvancedFilter (snd example_awaiting)) = JStr ''EMEA'' \<and>
   ready example_platform
     (fst example_awaiting, (snd example_awaiting)\<lparr>advancedFilterValue := JStr ''EMEA''\<rparr>) \<and>
   advancedFilterValue (snd (snd (getRecord example_platform None (Some example_record)
       example_awaiting))) = JStr ''EMEA'' \<and>
   (\<exists>call. vizCalls (fst (snd (getRecord example_platform None (Some example_record)
       example_awaiting))) = vizCalls (fst example_awaiting) @ [call]) \<and>
   vizCalls (fst (snd (getRecord example_platform None (Some example_record) example_awaiting))) =
     [example_filtered_call]"
proof -
  have n: "\<not> isConnected (fst example_detached)" "\<not> isConnected (fst example_awaiting)"
    by (simp_all add: example_detached_def example_awaiting_def)
  have l: "(snd example_detached)\<lparr>isLibLoaded := True\<rparr> = example_component"
    by (simp add: example_detached_def example_component_def)
  have v1: "validateInputs example_platform example_component = (True, example_component)"
    by (rule example_valid) (simp_all add: example_component_def)
  have r1: "ready example_platform
      (fst example_detached, (snd example_detached)\<lparr>isLibLoaded := True\<rparr>)"
    by (simp add: ready_def l v1)
       (simp add: example_component_def example_detached_def example_host_def)
  have v2: "validateInputs example_platform example_filtered = (True, example_filtered)"
    by (rule example_valid) (simp_all add: example_filtered_def example_component_def)
  have r2: "ready example_platform
     (fst example_awaiting, (snd example_awaiting)\<lparr>advancedFilterValue := JStr ''EMEA''\<rparr>)"
    by (simp add: ready_def example_awaiting_filtered v2)
       (simp add: example_filtered_def example_component_def example_awaiting_def example_host_def)
  note t = late_callbacks_ignore_liveness
    [where P = example_platform and h = "fst example_detached" and c = "snd example_detached"
       and h' = "fst example_awaiting" and c' = "snd example_awaiting" and err = None
       and d = example_record and b = False and data = None and e = "[]"]
  from t [THEN conjunct2, THEN conjunct1]
  have a: "isLibLoaded (snd (snd (connectedCallback_loaded example_platform example_detached)))"
    by simp
  from t [THEN conjunct2, THEN conjunct2, THEN conjunct1] r1
  have b: "\<exists>call. vizCalls (fst (snd (connectedCallback_loaded example_platform
      example_detached))) = vizCalls (fst example_detached) @ [call]"
    by simp
  from t [THEN conjunct2, THEN conjunct2, THEN conjunct2, THEN conjunct1]
  have c: "advancedFilterValue (snd (snd (getRecord example_platform None
      (Some example_record) example_awaiting))) = JStr ''EMEA''"
    by (simp add: example_awaiting_field)
  from t [THEN conjunct2, THEN conjunct2, THEN conjunct2, THEN conjunct2, THEN conjunct2,
      THEN conjunct2, THEN conjunct1] r2
  have d: "\<exists>call. vizCalls (fst (snd (getRecord example_platform None
      (Some example_record) example_awaiting))) = vizCalls (fst example_awaiting) @ [call]"
    by (simp add: example_awaiting_field)
  have e: "vizCalls (fst (snd (connectedCallback_loaded example_platform example_detached))) =
     [example_call]"
    by (simp add: example_detached_resume example_rendered_host_def)
  have f: "vizCalls (fst (snd (getRecord example_platform None (Some example_record)
      example_awaiting))) = [example_filtered_call]"
    by (simp add: example_awaiting_resolved)
  from n r1 a b e example_awaiting_field r2 c d f show ?thesis by blast
qed

subsection \<open>Strictness of the record-id filter\<close>

text \<open>
  C9. The test on \<^verbatim>\<open>filterOnRecordId\<close> is strict: for any value other than the boolean
  \<^verbatim>\<open>true\<close> (the string \<^verbatim>\<open>"true"\<close>, the number 1, ...) \<^verbatim>\<open>setVizFilters\<close> appends no
  record-id parameter. All it can append is the advanced-filter parameter.
\<close>

theorem setVizFilters_strict_true:
  assumes "filterOnRecordId c \<noteq> JBool True"
  shows "searchParams (setVizFilters c u) =
           searchParams u @
           (if truthy (tabAdvancedFilter c) \<and> truthy (advancedFilterValue c)
            then [(js_toString (tabAdvancedFilter c), js_toString (advancedFilterValue c))]
            else [])"
  using assms by (simp add: setVizFilters_def searchParams_append_def Let_def)

theorem setVizFilters_strict_true_witness:
  "truthy (filterOnRecordId (example_component\<lparr>filterOnRecordId := JStr ''true''\<rparr>)) \<and>
   filterOnRecordId (example_component\<lparr>filterOnRecordId := JStr ''true''\<rparr>) \<noteq> JBool True \<and>
   searchParams (setVizFilters (example_component\<lparr>filterOnRecordId := JStr ''true''\<rparr>) example_url) = []"
  using setVizFilters_strict_true
    [of "example_component\<lparr>filterOnRecordId := JStr ''true''\<rparr>" example_url]
  by (simp add: example_component_def example_url_def)

text \<open>
  C10. With \<^verbatim>\<open>filterOnRecordId\<close> \<^verbatim>\<open>true\<close>, a truthy \<^verbatim>\<open>objectApiName\<close> (a non-empty string in
  particular) and \<^verbatim>\<open>recordId\<close> \<^verbatim>\<open>undefined\<close>, the record-id parameter is appended all the
  same, with the text \<^verbatim>\<open>undefined\<close> as its value.
\<close>

theorem setVizFilters_undefined_recordId:
  assumes "filterOnRecordId c = JBool True"
    and "truthy (objectApiName c)"
    and "recordId c = JUndefined"
  shows "searchParams (setVizFilters c u) =
           searchParams u @
           (js_toString (objectApiName c) @ '' ID'', ''undefined'') #
           (if truthy (tabAdvancedFilter c) \<and> truthy (advancedFilterValue c)
            then [(js_toString (tabAdvancedFilter c), js_toString (advancedFilterValue c))]
            else [])"
  using assms by (simp add: setVizFilters_def searchParams_append_def Let_def)

theorem setVizFilters_undefined_recordId_witness:
  "filterOnRecordId (example_component\<lparr>recordId := JUndefined\<rparr>) = JBool True \<and>
   truthy (objectApiName (example_component\<lparr>recordId := JUndefined\<rparr>)) \<and>
   recordId (example_component\<lparr>recordId := JUndefined\<rparr>) = JUndefined \<and>
   searchParams (setVizFilters (example_component\<lparr>recordId := JUndefined\<rparr>) example_url) =
     [(''Account ID'', ''undefined'')]"
  using setVizFilters_undefined_recordId
    [of "example_component\<lparr>recordId := JUndefined\<rparr>" example_url]
  by (simp add: example_component_def example_url_def)

end
